theory Spec2Isabelle
  imports Main
begin

section \<open>The locale layout (\<open>LocaleLayout\<close>)\<close>

subsection \<open>Values the layout handles\<close>

text \<open>
  A JavaScript \<open>Error\<close> as the catch block of \<open>LocaleLayout\<close> reads it
  (\<open>(error as Error).name\<close>, \<open>.message\<close>, \<open>.stack\<close>); \<open>stack\<close> is optional in
  the TypeScript declaration of \<open>Error\<close>.
\<close>

record Error =
  name :: string
  message :: string
  stack :: "string option"

text \<open>
  What the awaited loader can reject with. \<open>catch (error)\<close> binds any thrown value and the
  cast \<open>error as Error\<close> checks nothing, so besides an \<open>Error\<close> object the value may be
  \<open>null\<close> or \<open>undefined\<close>, or a primitive (a string, number or boolean, kept by its printed
  form). Objects that are not errors are left out.
\<close>

datatype rejection = ErrorValue Error | Nullish | Primitive string

text \<open>
  What an invocation can throw to its caller: the control transfer raised by
  \<open>notFound()\<close> of \<open>next/navigation\<close>, or the \<open>TypeError\<close> of a property read on
  \<open>null\<close> or \<open>undefined\<close>.
\<close>

datatype thrown = NotFoundError | TypeError

text \<open>
  A JSX tree: either the opaque \<open>children\<close> value handed in by the caller, or an element
  with a tag, its props and its child nodes.
\<close>

datatype ('c, 'p) jsx = Children 'c | Element string "'p list" "('c, 'p) jsx list"

text \<open>The props that the layout writes: \<open>lang\<close>, \<open>className\<close> and \<open>messages\<close>.\<close>

datatype 'b layoutProp = Lang string | ClassName string | Messages 'b

text \<open>
  The cookie store of \<open>next/headers\<close>: \<open>get(name)\<close> yields a cookie or \<open>undefined\<close>.
\<close>

record RequestCookie =
  cookieName :: string
  cookieValue :: string

type_synonym RequestCookies = "string \<rightharpoonup> RequestCookie"

text \<open>\<open>routing\<close> of \<open>@/i18n/config\<close>: the supported locales and the default one.\<close>

record Routing =
  locales :: "string list"
  defaultLocale :: string

text \<open>
  The module's imports whose values are not part of the component: the locale registry,
  the name of the authentication cookie, the font class names and the message loader.
  The loader is awaited, so it is modelled by how its promise settles: \<open>Inr\<close> a bundle
  when it resolves, \<open>Inl\<close> the rejected value when it rejects; a promise that never
  settles is outside the model.
\<close>

record 'b Imports =
  routing :: Routing
  AUTH_COOKIE_NAME :: string
  fontVariables :: string
  getMessages :: "string \<Rightarrow> rejection + 'b"

record Params =
  localeParam :: string

record 'c RootLayoutProps =
  children :: 'c
  params :: Params

subsection \<open>Effects\<close>

text \<open>
  The effects of an invocation that are visible outside it, in the order they happen:
  a call of the message loader, and a call of \<open>console.error\<close> with a label and one
  more argument: the caught value itself (an error object, \<open>null\<close> or \<open>undefined\<close>, or a
  primitive), or the object literal with its details, whose three fields are all
  \<open>undefined\<close> when they were read from a primitive.
\<close>

datatype consoleArg =
  ErrorObject Error
  | Details (detailsName: string) (detailsMessage: string) (detailsStack: "string option")
  | NullishValue
  | PrimitiveValue string
  | UndefinedDetails

datatype event = GetMessagesCall string | ConsoleError string consoleArg

type_synonym world = "event list"

definition callGetMessages ::
  "'b Imports \<Rightarrow> string \<Rightarrow> world \<Rightarrow> (rejection + 'b) \<times> world" where
  "callGetMessages imp loc w = (getMessages imp loc, w @ [GetMessagesCall loc])"

definition consoleError :: "string \<Rightarrow> consoleArg \<Rightarrow> world \<Rightarrow> world" where
  "consoleError label arg w = w @ [ConsoleError label arg]"

text \<open>The cross mark that starts both labels, as its three UTF-8 bytes.\<close>

definition crossMark :: string where
  "crossMark = [CHR 0xE2, CHR 0x9D, CHR 0x8C]"

definition errorLabel :: string where
  "errorLabel = crossMark @ '' [layout.tsx] Error in LocaleLayout:''"

definition detailsLabel :: string where
  "detailsLabel = crossMark @ '' [layout.tsx] Error details:''"

subsection \<open>The component\<close>

text \<open>\<open>authCookie?.value === 'true'\<close>, for the result of \<open>cookieStore.get\<close>.\<close>

definition isAuthenticated :: "RequestCookie option \<Rightarrow> bool" where
  "isAuthenticated authCookie =
     (case authCookie of None \<Rightarrow> False | Some c \<Rightarrow> cookieValue c = ''true'')"

text \<open>The caught value as the second argument of the first \<open>console.error\<close>.\<close>

fun caughtArg :: "rejection \<Rightarrow> consoleArg" where
  "caughtArg (ErrorValue e) = ErrorObject e"
| "caughtArg Nullish = NullishValue"
| "caughtArg (Primitive p) = PrimitiveValue p"

text \<open>
  The object literal \<open>{ name: (error as Error).name, message: \<dots>, stack: \<dots> }\<close>. It is
  evaluated before the second \<open>console.error\<close> is called; reading a property of
  \<open>null\<close> or \<open>undefined\<close> throws a \<open>TypeError\<close>, and reading one that a primitive does
  not have gives \<open>undefined\<close>.
\<close>

fun errorDetails :: "rejection \<Rightarrow> thrown + consoleArg" where
  "errorDetails (ErrorValue e) = Inr (Details (name e) (message e) (stack e))"
| "errorDetails Nullish = Inl TypeError"
| "errorDetails (Primitive p) = Inr UndefinedDetails"

text \<open>The document that the \<open>try\<close> block returns.\<close>

definition shell :: "string \<Rightarrow> string \<Rightarrow> 'b \<Rightarrow> 'c \<Rightarrow> ('c, 'b layoutProp) jsx" where
  "shell loc fonts msgs kids =
     Element ''html'' [Lang loc]
       [Element ''body'' [ClassName fonts]
         [Element ''NextIntlClientProvider'' [Messages msgs]
           [Element ''SmoothScroll'' []
             [Element ''ThemeProvider'' []
               [Element ''ThemeReset'' [] [],
                Element ''AuthToggle'' [] [],
                Element ''Header'' [] [],
                Element ''FadeIn'' [] [Children kids],
                Element ''Footer'' [] []]]]]]"

text \<open>
  \<open>LocaleLayout\<close>, statement by statement: the cookie is read and compared first, the
  locale is validated next (\<open>notFound()\<close> throws), the authenticated request gets its
  children back, and otherwise the loader runs inside \<open>try\<close>; the \<open>catch\<close> block logs
  the caught value, builds the details (which can throw), logs them and throws
  \<open>notFound()\<close>.
\<close>

definition LocaleLayout ::
  "'b Imports \<Rightarrow> RequestCookies \<Rightarrow> 'c RootLayoutProps \<Rightarrow> world
     \<Rightarrow> (thrown + ('c, 'b layoutProp) jsx) \<times> world" where
  "LocaleLayout imp cookieStore props w =
     (let authCookie = cookieStore (AUTH_COOKIE_NAME imp);
          authenticated = isAuthenticated authCookie;
          loc = localeParam (params props)
      in if loc \<notin> set (locales (routing imp)) then (Inl NotFoundError, w)
         else if authenticated then (Inr (Children (children props)), w)
         else (case callGetMessages imp loc w of
                 (Inr msgs, w1) \<Rightarrow>
                   (Inr (shell loc (fontVariables imp) msgs (children props)), w1)
               | (Inl error, w1) \<Rightarrow>
                   (let w2 = consoleError errorLabel (caughtArg error) w1
                    in case errorDetails error of
                         Inl typeError \<Rightarrow> (Inl typeError, w2)
                       | Inr details \<Rightarrow>
                           (let w3 = consoleError detailsLabel details w2
                            in (Inl NotFoundError, w3)))))"

text \<open>The loader calls and the \<open>console.error\<close> calls of a trace.\<close>

fun isGetMessagesCall :: "event \<Rightarrow> bool" where
  "isGetMessagesCall (GetMessagesCall _) = True"
| "isGetMessagesCall (ConsoleError _ _) = False"

fun isConsoleError :: "event \<Rightarrow> bool" where
  "isConsoleError (ConsoleError _ _) = True"
| "isConsoleError (GetMessagesCall _) = False"

definition loaderCalls :: "world \<Rightarrow> event list" where
  "loaderCalls w = filter isGetMessagesCall w"

definition consoleErrors :: "world \<Rightarrow> event list" where
  "consoleErrors w = filter isConsoleError w"

text \<open>Whether a logged argument carries a given name, message and stack.\<close>

fun carries :: "consoleArg \<Rightarrow> Error \<Rightarrow> bool" where
  "carries (ErrorObject e') e = (name e' = name e \<and> message e' = message e \<and> stack e' = stack e)"
| "carries (Details n m s) e = (n = name e \<and> m = message e \<and> s = stack e)"
| "carries NullishValue e = False"
| "carries (PrimitiveValue _) e = False"
| "carries UndefinedDetails e = False"






subsection \<open>Sample requests\<close>

type_synonym messageBundle = "(string \<times> string) list"

definition enBundle :: messageBundle where
  "enBundle = [(''metadata.title'', ''Todd Agriscience'')]"

definition esBundle :: messageBundle where
  "esBundle = [(''metadata.title'', ''Todd Agrociencia'')]"

definition bundleError :: Error where
  "bundleError = \<lparr>name = ''SyntaxError'', message = ''Unexpected end of JSON input'',
     stack = Some ''SyntaxError: Unexpected end of JSON input at getMessages''\<rparr>"

definition sampleRouting :: Routing where
  "sampleRouting = \<lparr>locales = [''en'', ''es''], defaultLocale = ''en''\<rparr>"

definition loadingGetMessages :: "string \<Rightarrow> rejection + messageBundle" where
  "loadingGetMessages loc = (if loc = ''es'' then Inr esBundle else Inr enBundle)"

definition failingGetMessages :: "string \<Rightarrow> rejection + messageBundle" where
  "failingGetMessages loc = Inl (ErrorValue bundleError)"

definition nullishGetMessages :: "string \<Rightarrow> rejection + messageBundle" where
  "nullishGetMessages loc = Inl Nullish"

definition sampleImports :: "messageBundle Imports" where
  "sampleImports = \<lparr>routing = sampleRouting, AUTH_COOKIE_NAME = ''isAuthenticated'',
     fontVariables = ''font-sans'', getMessages = loadingGetMessages\<rparr>"

definition failingImports :: "messageBundle Imports" where
  "failingImports = \<lparr>routing = sampleRouting, AUTH_COOKIE_NAME = ''isAuthenticated'',
     fontVariables = ''font-sans'', getMessages = failingGetMessages\<rparr>"

definition nullishImports :: "messageBundle Imports" where
  "nullishImports = \<lparr>routing = sampleRouting, AUTH_COOKIE_NAME = ''isAuthenticated'',
     fontVariables = ''font-sans'', getMessages = nullishGetMessages\<rparr>"


definition noCookies :: RequestCookies where
  "noCookies = Map.empty"

definition authCookies :: "string \<Rightarrow> RequestCookies" where
  "authCookies v =
     [''isAuthenticated'' \<mapsto> \<lparr>cookieName = ''isAuthenticated'', cookieValue = v\<rparr>]"


definition pageProps :: "string \<Rightarrow> string RootLayoutProps" where
  "pageProps loc = \<lparr>children = ''page'', params = \<lparr>localeParam = loc\<rparr>\<rparr>"

definition earlierWorld :: world where
  "earlierWorld = [GetMessagesCall ''en'', ConsoleError ''earlier'' (ErrorObject bundleError)]"

section \<open>The test harness (\<open>getMessagesForLocale\<close>, \<open>AllTheProviders\<close>)\<close>

text \<open>
  The value of a property read \<open>obj[key]\<close> on an object literal whose properties hold
  message bundles: \<open>undefined\<close>, one of the bundles, or what the literal inherits from
  \<open>Object.prototype\<close> under that key (a built-in function, or the prototype itself).
\<close>

datatype 'm jsval = Undefined | MessagesObject 'm | Inherited string

text \<open>The property names of \<open>Object.prototype\<close>, which every object literal inherits.\<close>

definition objectPrototypeKeys :: "string list" where
  "objectPrototypeKeys =
     [''constructor'', ''hasOwnProperty'', ''isPrototypeOf'', ''propertyIsEnumerable'',
      ''toLocaleString'', ''toString'', ''valueOf'', ''__proto__'',
      ''__defineGetter__'', ''__defineSetter__'', ''__lookupGetter__'', ''__lookupSetter__'']"

text \<open>\<open>obj[key]\<close>: the object's own property if it has one, else the inherited one.\<close>

definition getProperty :: "(string \<times> 'm) list \<Rightarrow> string \<Rightarrow> 'm jsval" where
  "getProperty own key =
     (case map_of own key of
        Some v \<Rightarrow> MessagesObject v
      | None \<Rightarrow> if key \<in> set objectPrototypeKeys then Inherited key else Undefined)"

text \<open>Objects and functions are truthy, \<open>undefined\<close> is not; \<open>a || b\<close> keeps a truthy \<open>a\<close>.\<close>

fun truthy :: "'m jsval \<Rightarrow> bool" where
  "truthy Undefined = False"
| "truthy (MessagesObject _) = True"
| "truthy (Inherited _) = True"

definition jsOr :: "'m jsval \<Rightarrow> 'm jsval \<Rightarrow> 'm jsval" where
  "jsOr a b = (if truthy a then a else b)"

text \<open>
  The literal \<open>{ en: enMessages, es: esMessages }\<close>; the two imported JSON bundles are
  parameters.
\<close>

definition messageMap :: "'m \<Rightarrow> 'm \<Rightarrow> (string \<times> 'm) list" where
  "messageMap enMessages esMessages = [(''en'', enMessages), (''es'', esMessages)]"

definition getMessagesForLocale :: "'m \<Rightarrow> 'm \<Rightarrow> string \<Rightarrow> 'm jsval" where
  "getMessagesForLocale enMessages esMessages loc =
     jsOr (getProperty (messageMap enMessages esMessages) loc) (MessagesObject enMessages)"

datatype 'm harnessProp =
  LocaleProp string
  | MessagesProp "'m jsval"
  | TranslationsProp "string \<rightharpoonup> string"
  | IsLoadingProp bool

text \<open>
  \<open>AllTheProviders\<close>; an optional prop that is left out is \<open>None\<close>, and the
  destructuring defaults fill it in.
\<close>

definition AllTheProviders ::
  "'m \<Rightarrow> 'm \<Rightarrow> 'c \<Rightarrow> (string \<rightharpoonup> string) option \<Rightarrow> bool option \<Rightarrow> string option
     \<Rightarrow> bool option \<Rightarrow> ('c, 'm harnessProp) jsx" where
  "AllTheProviders enMessages esMessages kids translationsOpt isLoadingOpt localeOpt useNextIntlOpt =
     (let translations = (case translationsOpt of None \<Rightarrow> Map.empty | Some t \<Rightarrow> t);
          isLoading = (case isLoadingOpt of None \<Rightarrow> False | Some b \<Rightarrow> b);
          loc = (case localeOpt of None \<Rightarrow> ''en'' | Some l \<Rightarrow> l);
          useNextIntl = (case useNextIntlOpt of None \<Rightarrow> True | Some b \<Rightarrow> b)
      in if useNextIntl then
           (let msgs = jsOr (getProperty (messageMap enMessages esMessages) loc)
                         (MessagesObject enMessages)
            in Element ''NextIntlClientProvider'' [LocaleProp loc, MessagesProp msgs]
                 [Element ''ThemeProvider'' [] [Children kids]])
         else
           Element ''ThemeProvider'' []
             [Element ''MockLocaleProvider''
                [LocaleProp loc, TranslationsProp translations, IsLoadingProp isLoading]
                [Children kids]])"

section \<open>The news table (\<open>LatestNewsTable\<close>)\<close>

text \<open>The fields of a news item that the table reads; \<open>link\<close> is optional.\<close>

record NewsCardProps =
  title :: string
  link :: "string option"
  source :: string
  date :: string

text \<open>One rendered row, and the whole rendered table.\<close>

record TableRow =
  rowKey :: string
  bordered :: bool
  headline :: string
  href :: "string option"
  ariaLabel :: string
  sourceText :: string
  dateText :: string

record TableView =
  tableRows :: "TableRow list"
  loadMoreShown :: bool

text \<open>\<open>useState(3)\<close> and the updater of \<open>handleLoadMore\<close>.\<close>

definition initialVisibleCount :: nat where
  "initialVisibleCount = 3"

definition handleLoadMore :: "nat \<Rightarrow> nat" where
  "handleLoadMore prev = prev + 3"

definition isAllShown :: "nat \<Rightarrow> NewsCardProps list \<Rightarrow> bool" where
  "isAllShown visibleCount items = (visibleCount \<ge> length items)"

text \<open>\<open>items.slice(0, end)\<close> for a count \<open>end\<close>.\<close>

definition slice0 :: "'a list \<Rightarrow> nat \<Rightarrow> 'a list" where
  "slice0 xs end = take end xs"

text \<open>
  The row of one item at its index; the border is left out on the last visible row.
  \<open>visibleCount - 1\<close> and \<open>items.length - 1\<close> are computed in the integers.
\<close>

definition renderRow ::
  "(string \<Rightarrow> string \<Rightarrow> string) \<Rightarrow> string \<Rightarrow> nat \<Rightarrow> NewsCardProps list
     \<Rightarrow> nat \<times> NewsCardProps \<Rightarrow> TableRow" where
  "renderRow toLocaleDateString loc visibleCount items p =
     (case p of (index, item) \<Rightarrow>
        \<lparr>rowKey = title item,
         bordered = (int index \<noteq> int visibleCount - 1 \<and> int index \<noteq> int (length items) - 1),
         headline = title item,
         href = link item,
         ariaLabel = ''Open '' @ title item @ '' in new tab'',
         sourceText = source item,
         dateText = toLocaleDateString loc (date item @ ''T00:00:00'')\<rparr>)"

text \<open>
  The component for a state \<open>visibleCount\<close>; the date formatter of the platform and the
  locale of \<open>useLocale()\<close> are parameters.
\<close>

definition LatestNewsTable ::
  "(string \<Rightarrow> string \<Rightarrow> string) \<Rightarrow> string \<Rightarrow> NewsCardProps list \<Rightarrow> nat \<Rightarrow> TableView" where
  "LatestNewsTable toLocaleDateString loc items visibleCount =
     (let shown = slice0 items visibleCount
      in \<lparr>tableRows = map (renderRow toLocaleDateString loc visibleCount items)
                        (zip [0..<length shown] shown),
          loadMoreShown = (\<not> isAllShown visibleCount items)\<rparr>)"

text \<open>
  Activating the load-more control: it can be activated only while it is shown, and then
  runs \<open>handleLoadMore\<close> on the state.
\<close>

definition clickLoadMore :: "NewsCardProps list \<Rightarrow> nat \<Rightarrow> nat option" where
  "clickLoadMore items visibleCount =
     (if isAllShown visibleCount items then None else Some (handleLoadMore visibleCount))"

text \<open>The state after a number of activations of \<open>handleLoadMore\<close>.\<close>

fun afterLoads :: "nat \<Rightarrow> nat" where
  "afterLoads 0 = initialVisibleCount"
| "afterLoads (Suc n) = handleLoadMore (afterLoads n)"

definition sampleItem :: "string \<Rightarrow> NewsCardProps" where
  "sampleItem t = \<lparr>title = t, link = Some ''https://example.org'', source = ''Wire'',
     date = ''2025-04-15''\<rparr>"

definition sampleItems :: "NewsCardProps list" where
  "sampleItems = map sampleItem [''a'', ''b'', ''c'', ''d'', ''e'']"

definition isoDate :: "string \<Rightarrow> string \<Rightarrow> string" where
  "isoDate loc d = d"

section \<open>The decision sequence in the specification's words\<close>

text \<open>
  The terminal states that the specification names, and its decision sequence
  \<open>Start \<rightarrow> ValidateLocale \<rightarrow> {NotFound | CheckAuth} \<rightarrow> {PassThrough | LoadBundle \<rightarrow> {Shell | NotFound}}\<close>,
  written from the specification and not from the code, to compare the code with.
\<close>

datatype terminal = NotFound | PassThrough | Shell

definition specDecision :: "bool \<Rightarrow> bool \<Rightarrow> bool \<Rightarrow> terminal" where
  "specDecision localeSupported authenticated bundleLoaded =
     (if \<not> localeSupported then NotFound
      else if authenticated then PassThrough
      else if bundleLoaded then Shell
      else NotFound)"

text \<open>The terminal state that a result of \<open>LocaleLayout\<close> stands for, if any.\<close>

fun terminalOf :: "thrown + ('c, 'p) jsx \<Rightarrow> terminal option" where
  "terminalOf (Inl NotFoundError) = Some NotFound"
| "terminalOf (Inl TypeError) = None"
| "terminalOf (Inr (Children _)) = Some PassThrough"
| "terminalOf (Inr (Element _ _ _)) = Some Shell"

fun loaded :: "rejection + 'b \<Rightarrow> bool" where
  "loaded (Inr _) = True"
| "loaded (Inl _) = False"

section \<open>Properties of the locale layout\<close>

lemmas LocaleLayout_unfold = LocaleLayout_def callGetMessages_def consoleError_def Let_def

lemmas sample_defs = sampleImports_def failingImports_def nullishImports_def sampleRouting_def
  loadingGetMessages_def failingGetMessages_def nullishGetMessages_def noCookies_def
  authCookies_def pageProps_def isAuthenticated_def

lemma LocaleLayout_invalid:
  "localeParam (params props) \<notin> set (locales (routing imp)) \<Longrightarrow>
     LocaleLayout imp cookieStore props w = (Inl NotFoundError, w)"
  by (simp add: LocaleLayout_unfold)

lemma LocaleLayout_authenticated:
  "localeParam (params props) \<in> set (locales (routing imp)) \<Longrightarrow>
   isAuthenticated (cookieStore (AUTH_COOKIE_NAME imp)) \<Longrightarrow>
     LocaleLayout imp cookieStore props w = (Inr (Children (children props)), w)"
  by (simp add: LocaleLayout_unfold)

lemma LocaleLayout_loaded:
  "localeParam (params props) \<in> set (locales (routing imp)) \<Longrightarrow>
   \<not> isAuthenticated (cookieStore (AUTH_COOKIE_NAME imp)) \<Longrightarrow>
   getMessages imp (localeParam (params props)) = Inr msgs \<Longrightarrow>
     LocaleLayout imp cookieStore props w =
       (Inr (shell (localeParam (params props)) (fontVariables imp) msgs (children props)),
        w @ [GetMessagesCall (localeParam (params props))])"
  by (simp add: LocaleLayout_unfold)

lemma LocaleLayout_failed:
  "localeParam (params props) \<in> set (locales (routing imp)) \<Longrightarrow>
   \<not> isAuthenticated (cookieStore (AUTH_COOKIE_NAME imp)) \<Longrightarrow>
   getMessages imp (localeParam (params props)) = Inl (ErrorValue e) \<Longrightarrow>
     LocaleLayout imp cookieStore props w =
       (Inl NotFoundError,
        w @ [GetMessagesCall (localeParam (params props)),
             ConsoleError errorLabel (ErrorObject e),
             ConsoleError detailsLabel (Details (name e) (message e) (stack e))])"
  by (simp add: LocaleLayout_unfold)

lemma LocaleLayout_failed_primitive:
  "localeParam (params props) \<in> set (locales (routing imp)) \<Longrightarrow>
   \<not> isAuthenticated (cookieStore (AUTH_COOKIE_NAME imp)) \<Longrightarrow>
   getMessages imp (localeParam (params props)) = Inl (Primitive p) \<Longrightarrow>
     LocaleLayout imp cookieStore props w =
       (Inl NotFoundError,
        w @ [GetMessagesCall (localeParam (params props)),
             ConsoleError errorLabel (PrimitiveValue p),
             ConsoleError detailsLabel UndefinedDetails])"
  by (simp add: LocaleLayout_unfold)

text \<open>
  A rejection with \<open>null\<close> or \<open>undefined\<close>: the first log is written, the details cannot
  be read, and the \<open>TypeError\<close> leaves the catch block before \<open>notFound()\<close>.
\<close>

lemma LocaleLayout_failed_nullish:
  "localeParam (params props) \<in> set (locales (routing imp)) \<Longrightarrow>
   \<not> isAuthenticated (cookieStore (AUTH_COOKIE_NAME imp)) \<Longrightarrow>
   getMessages imp (localeParam (params props)) = Inl Nullish \<Longrightarrow>
     LocaleLayout imp cookieStore props w =
       (Inl TypeError,
        w @ [GetMessagesCall (localeParam (params props)),
             ConsoleError errorLabel NullishValue])"
  by (simp add: LocaleLayout_unfold)

lemmas LocaleLayout_paths = LocaleLayout_invalid LocaleLayout_authenticated LocaleLayout_loaded
  LocaleLayout_failed LocaleLayout_failed_primitive LocaleLayout_failed_nullish

text \<open>The six paths through the component cover every request.\<close>

lemma LocaleLayout_cases:
  obtains (invalid) "localeParam (params props) \<notin> set (locales (routing imp))"
  | (authenticated) "localeParam (params props) \<in> set (locales (routing imp))"
      "isAuthenticated (cookieStore (AUTH_COOKIE_NAME imp))"
  | (loaded) msgs where "localeParam (params props) \<in> set (locales (routing imp))"
      "\<not> isAuthenticated (cookieStore (AUTH_COOKIE_NAME imp))"
      "getMessages imp (localeParam (params props)) = Inr msgs"
  | (failed) e where "localeParam (params props) \<in> set (locales (routing imp))"
      "\<not> isAuthenticated (cookieStore (AUTH_COOKIE_NAME imp))"
      "getMessages imp (localeParam (params props)) = Inl (ErrorValue e)"
  | (primitive) p where "localeParam (params props) \<in> set (locales (routing imp))"
      "\<not> isAuthenticated (cookieStore (AUTH_COOKIE_NAME imp))"
      "getMessages imp (localeParam (params props)) = Inl (Primitive p)"
  | (nullish) "localeParam (params props) \<in> set (locales (routing imp))"
      "\<not> isAuthenticated (cookieStore (AUTH_COOKIE_NAME imp))"
      "getMessages imp (localeParam (params props)) = Inl Nullish"
proof (cases "getMessages imp (localeParam (params props))")
  case (Inl x)
  then show ?thesis using that by (cases x) auto
next
  case (Inr msgs)
  then show ?thesis using that by auto
qed




text \<open>
  C1: a locale outside the supported set gives the not-found outcome, whatever the cookie
  store holds, and nothing is loaded or logged.
\<close>

theorem LocaleLayout_invalid_locale_NotFound:
  "localeParam (params props) \<notin> set (locales (routing imp)) \<Longrightarrow>
     LocaleLayout imp cookieStore props w = (Inl NotFoundError, w)"
  by (rule LocaleLayout_invalid)

theorem LocaleLayout_invalid_locale_NotFound_witness:
  "''xx'' \<notin> set (locales (routing sampleImports)) \<and>
   isAuthenticated (authCookies ''true'' (AUTH_COOKIE_NAME sampleImports)) \<and>
   LocaleLayout sampleImports (authCookies ''true'') (pageProps ''xx'') [] =
     (Inl NotFoundError, []) \<and>
   LocaleLayout sampleImports noCookies (pageProps ''xx'') [] = (Inl NotFoundError, [])"
  using LocaleLayout_invalid_locale_NotFound
      [of "pageProps ''xx''" sampleImports "authCookies ''true''" "[]"]
    LocaleLayout_invalid_locale_NotFound [of "pageProps ''xx''" sampleImports noCookies "[]"]
  by (simp add: sample_defs)

text \<open>
  C2: for a supported locale and an authentication cookie whose value is \<open>true\<close>, the
  children are returned as they are and the message loader is not called.
\<close>

theorem LocaleLayout_authenticated_PassThrough:
  assumes "localeParam (params props) \<in> set (locales (routing imp))"
    and "cookieStore (AUTH_COOKIE_NAME imp) = Some c"
    and "cookieValue c = ''true''"
  shows "LocaleLayout imp cookieStore props w = (Inr (Children (children props)), w) \<and>
    loaderCalls (snd (LocaleLayout imp cookieStore props [])) = []"
proof -
  have "isAuthenticated (cookieStore (AUTH_COOKIE_NAME imp))"
    using assms(2,3) by (simp add: isAuthenticated_def)
  with assms(1) have "LocaleLayout imp cookieStore props v = (Inr (Children (children props)), v)"
    for v by (rule LocaleLayout_authenticated)
  then show ?thesis by (simp add: loaderCalls_def)
qed

theorem LocaleLayout_authenticated_PassThrough_witness:
  "''es'' \<in> set (locales (routing sampleImports)) \<and>
   authCookies ''true'' (AUTH_COOKIE_NAME sampleImports) =
     Some \<lparr>cookieName = ''isAuthenticated'', cookieValue = ''true''\<rparr> \<and>
   LocaleLayout sampleImports (authCookies ''true'') (pageProps ''es'') [] =
     (Inr (Children ''page''), []) \<and>
   loaderCalls (snd (LocaleLayout sampleImports (authCookies ''true'') (pageProps ''es'') [])) = []"
  using LocaleLayout_authenticated_PassThrough
      [of "pageProps ''es''" sampleImports "authCookies ''true''"
          "\<lparr>cookieName = ''isAuthenticated'', cookieValue = ''true''\<rparr>" "[]"]
  by (simp add: sample_defs loaderCalls_def)



text \<open>
  C4 as stated: a failing bundle load gives the not-found outcome and exactly one log
  entry. The catch block calls \<open>console.error\<close> twice, so at the request below the log
  has two entries.
\<close>

theorem LocaleLayout_load_failure_one_log_counterexample:
  "''es'' \<in> set (locales (routing failingImports)) \<and>
   \<not> isAuthenticated (noCookies (AUTH_COOKIE_NAME failingImports)) \<and>
   getMessages failingImports ''es'' = Inl (ErrorValue bundleError) \<and>
   length (consoleErrors (snd (LocaleLayout failingImports noCookies (pageProps ''es'') []))) \<noteq> 1 \<and>
   length (consoleErrors (snd (LocaleLayout failingImports noCookies (pageProps ''es'') []))) = 2"
  by (simp add: LocaleLayout_unfold sample_defs consoleErrors_def)

text \<open>
  C4, amended: for a supported locale, no authentication and a loader that rejects with
  an error \<open>e\<close>, the outcome is not-found after one loader call and exactly two log
  entries: first the error itself under the label of the layout, then the record of its
  name, message and stack under the details label. Both carry the three fields of \<open>e\<close>.
\<close>

theorem LocaleLayout_load_failure_logs_twice:
  assumes "localeParam (params props) \<in> set (locales (routing imp))"
    and "\<not> isAuthenticated (cookieStore (AUTH_COOKIE_NAME imp))"
    and "getMessages imp (localeParam (params props)) = Inl (ErrorValue e)"
  shows "fst (LocaleLayout imp cookieStore props w) = Inl NotFoundError \<and>
    snd (LocaleLayout imp cookieStore props w) =
      w @ [GetMessagesCall (localeParam (params props)),
           ConsoleError errorLabel (ErrorObject e),
           ConsoleError detailsLabel (Details (name e) (message e) (stack e))] \<and>
    consoleErrors (snd (LocaleLayout imp cookieStore props [])) =
      [ConsoleError errorLabel (ErrorObject e),
       ConsoleError detailsLabel (Details (name e) (message e) (stack e))] \<and>
    carries (ErrorObject e) e \<and> carries (Details (name e) (message e) (stack e)) e"
  using assms by (simp add: LocaleLayout_failed consoleErrors_def)

theorem LocaleLayout_load_failure_logs_twice_witness:
  "''es'' \<in> set (locales (routing failingImports)) \<and>
   \<not> isAuthenticated (noCookies (AUTH_COOKIE_NAME failingImports)) \<and>
   getMessages failingImports ''es'' = Inl (ErrorValue bundleError) \<and>
   fst (LocaleLayout failingImports noCookies (pageProps ''es'') earlierWorld) = Inl NotFoundError \<and>
   snd (LocaleLayout failingImports noCookies (pageProps ''es'') earlierWorld) =
     earlierWorld @ [GetMessagesCall ''es'', ConsoleError errorLabel (ErrorObject bundleError),
       ConsoleError detailsLabel (Details ''SyntaxError'' ''Unexpected end of JSON input''
         (Some ''SyntaxError: Unexpected end of JSON input at getMessages''))]"
  using LocaleLayout_load_failure_logs_twice
      [of "pageProps ''es''" failingImports noCookies bundleError earlierWorld]
  by (simp add: sample_defs bundleError_def)

text \<open>
  C5 at a bundle load that rejects with \<open>null\<close> or \<open>undefined\<close>: the claim says that
  the result is not-found, the children or the shell for every input, and the comment of
  the catch block says that an error loading messages also triggers the 404; but the catch
  block itself throws while it reads the details, so the caller gets a \<open>TypeError\<close>.
\<close>

theorem LocaleLayout_nullish_rejection_TypeError:
  "''en'' \<in> set (locales (routing nullishImports)) \<and>
   \<not> isAuthenticated (noCookies (AUTH_COOKIE_NAME nullishImports)) \<and>
   getMessages nullishImports ''en'' = Inl Nullish \<and>
   fst (LocaleLayout nullishImports noCookies (pageProps ''en'') []) = Inl TypeError \<and>
   fst (LocaleLayout nullishImports noCookies (pageProps ''en'') []) \<noteq> Inl NotFoundError \<and>
   fst (LocaleLayout nullishImports noCookies (pageProps ''en'') []) \<noteq> Inr (Children ''page'') \<and>
   fst (LocaleLayout nullishImports noCookies (pageProps ''en'') []) \<noteq>
     Inr (shell ''en'' ''font-sans'' enBundle ''page'')"
  by (simp add: LocaleLayout_unfold sample_defs)

text \<open>
  On every other request the outcomes are as intended: unless the bundle load is reached
  and rejects with \<open>null\<close> or \<open>undefined\<close>, the result is the not-found signal, the
  children as they are, or the document shell around a bundle that the loader returned,
  and not-found is the only error that reaches the caller; an unsupported locale and a
  bundle load that rejects with an error object or a primitive end in the same result.
\<close>

theorem LocaleLayout_only_NotFound_surfaces:
  "(\<not> (localeParam (params props) \<in> set (locales (routing imp)) \<and>
        \<not> isAuthenticated (cookieStore (AUTH_COOKIE_NAME imp)) \<and>
        getMessages imp (localeParam (params props)) = Inl Nullish) \<longrightarrow>
      (fst (LocaleLayout imp cookieStore props w) = Inl NotFoundError \<or>
       fst (LocaleLayout imp cookieStore props w) = Inr (Children (children props)) \<or>
       (\<exists>B. getMessages imp (localeParam (params props)) = Inr B \<and>
          fst (LocaleLayout imp cookieStore props w) =
            Inr (shell (localeParam (params props)) (fontVariables imp) B (children props)))) \<and>
      (\<forall>t. fst (LocaleLayout imp cookieStore props w) = Inl t \<longrightarrow> t = NotFoundError)) \<and>
   (localeParam (params props) \<notin> set (locales (routing imp)) \<and>
    localeParam (params props') \<in> set (locales (routing imp')) \<and>
    \<not> isAuthenticated (cookieStore' (AUTH_COOKIE_NAME imp')) \<and>
    getMessages imp' (localeParam (params props')) = Inl x' \<and> x' \<noteq> Nullish \<longrightarrow>
      fst (LocaleLayout imp cookieStore props w) = fst (LocaleLayout imp' cookieStore' props' w'))"
proof (intro conjI impI)
  assume reached: "\<not> (localeParam (params props) \<in> set (locales (routing imp)) \<and>
    \<not> isAuthenticated (cookieStore (AUTH_COOKIE_NAME imp)) \<and>
    getMessages imp (localeParam (params props)) = Inl Nullish)"
  then show "fst (LocaleLayout imp cookieStore props w) = Inl NotFoundError \<or>
    fst (LocaleLayout imp cookieStore props w) = Inr (Children (children props)) \<or>
    (\<exists>B. getMessages imp (localeParam (params props)) = Inr B \<and>
       fst (LocaleLayout imp cookieStore props w) =
         Inr (shell (localeParam (params props)) (fontVariables imp) B (children props)))"
    by (cases rule: LocaleLayout_cases [where props = props and imp = imp and cookieStore = cookieStore])
      (simp_all add: LocaleLayout_paths)
  from reached show "\<forall>t. fst (LocaleLayout imp cookieStore props w) = Inl t \<longrightarrow> t = NotFoundError"
    by (cases rule: LocaleLayout_cases [where props = props and imp = imp and cookieStore = cookieStore])
      (simp_all add: LocaleLayout_paths)
next
  assume both: "localeParam (params props) \<notin> set (locales (routing imp)) \<and>
    localeParam (params props') \<in> set (locales (routing imp')) \<and>
    \<not> isAuthenticated (cookieStore' (AUTH_COOKIE_NAME imp')) \<and>
    getMessages imp' (localeParam (params props')) = Inl x' \<and> x' \<noteq> Nullish"
  then have "fst (LocaleLayout imp' cookieStore' props' w') = Inl NotFoundError"
    by (cases x') (simp_all add: LocaleLayout_paths)
  with both show "fst (LocaleLayout imp cookieStore props w) =
    fst (LocaleLayout imp' cookieStore' props' w')"
    by (simp add: LocaleLayout_invalid)
qed

theorem LocaleLayout_only_NotFound_surfaces_example:
  "''xx'' \<notin> set (locales (routing sampleImports)) \<and>
   ''es'' \<in> set (locales (routing failingImports)) \<and>
   \<not> isAuthenticated (noCookies (AUTH_COOKIE_NAME failingImports)) \<and>
   getMessages failingImports ''es'' = Inl (ErrorValue bundleError) \<and>
   ErrorValue bundleError \<noteq> Nullish \<and>
   fst (LocaleLayout sampleImports (authCookies ''true'') (pageProps ''xx'') []) =
     fst (LocaleLayout failingImports noCookies (pageProps ''es'') earlierWorld) \<and>
   fst (LocaleLayout sampleImports (authCookies ''true'') (pageProps ''xx'') []) =
     Inl NotFoundError"
  using LocaleLayout_only_NotFound_surfaces
      [of "pageProps ''xx''" sampleImports "authCookies ''true''" "[]" "pageProps ''es''"
          failingImports noCookies "ErrorValue bundleError" earlierWorld]
  by (simp add: sample_defs LocaleLayout_unfold)

text \<open>
  C6: the authentication state computed by \<open>LocaleLayout\<close> is true exactly when the store
  holds a cookie under the authentication cookie's name and its value is the string
  \<open>true\<close>.
\<close>

theorem isAuthenticated_iff:
  "isAuthenticated (cookieStore (AUTH_COOKIE_NAME imp)) =
     (\<exists>c. cookieStore (AUTH_COOKIE_NAME imp) = Some c \<and> cookieValue c = ''true'')"
  by (cases "cookieStore (AUTH_COOKIE_NAME imp)") (simp_all add: isAuthenticated_def)

theorem isAuthenticated_iff_witness:
  "isAuthenticated (authCookies ''true'' (AUTH_COOKIE_NAME sampleImports)) \<and>
   \<not> isAuthenticated (authCookies ''True'' (AUTH_COOKIE_NAME sampleImports)) \<and>
   \<not> isAuthenticated (authCookies ''1'' (AUTH_COOKIE_NAME sampleImports)) \<and>
   \<not> isAuthenticated (authCookies '''' (AUTH_COOKIE_NAME sampleImports)) \<and>
   \<not> isAuthenticated (noCookies (AUTH_COOKIE_NAME sampleImports))"
  using isAuthenticated_iff [of "authCookies ''true''" sampleImports]
    isAuthenticated_iff [of "authCookies ''True''" sampleImports]
    isAuthenticated_iff [of "authCookies ''1''" sampleImports]
    isAuthenticated_iff [of "authCookies ''''" sampleImports]
    isAuthenticated_iff [of noCookies sampleImports]
  by (simp add: sampleImports_def authCookies_def noCookies_def)




text \<open>
  C8 at a bundle load that rejects with \<open>null\<close> or \<open>undefined\<close>: the claim says that
  every execution reaches one of the three terminal states and that a failed bundle load
  is terminal at once; here the loader is called once, the caught value is logged, and the
  execution ends in a \<open>TypeError\<close>, which is none of the three and not what the decision
  sequence gives.
\<close>

theorem LocaleLayout_nullish_rejection_no_terminal:
  "''es'' \<in> set (locales (routing nullishImports)) \<and>
   \<not> isAuthenticated (noCookies (AUTH_COOKIE_NAME nullishImports)) \<and>
   getMessages nullishImports ''es'' = Inl Nullish \<and>
   terminalOf (fst (LocaleLayout nullishImports noCookies (pageProps ''es'') [])) = None \<and>
   terminalOf (fst (LocaleLayout nullishImports noCookies (pageProps ''es'') [])) \<noteq>
     Some (specDecision True False False) \<and>
   snd (LocaleLayout nullishImports noCookies (pageProps ''es'') []) =
     [GetMessagesCall ''es'', ConsoleError errorLabel NullishValue]"
  by (simp add: LocaleLayout_unfold sample_defs)

text \<open>
  No execution retries or loops: the loader is called at most once, and exactly once when
  the locale is supported and the request is not authenticated. Unless the bundle load is
  reached and rejects with \<open>null\<close> or \<open>undefined\<close>, the execution ends in the terminal
  state that the decision sequence of the specification gives, and a bundle load that
  rejects with an error object or a primitive ends in not-found at once.
\<close>

theorem LocaleLayout_no_retry:
  "length (loaderCalls (snd (LocaleLayout imp cookieStore props []))) \<le> 1 \<and>
   (localeParam (params props) \<in> set (locales (routing imp)) \<and>
    \<not> isAuthenticated (cookieStore (AUTH_COOKIE_NAME imp)) \<longrightarrow>
      loaderCalls (snd (LocaleLayout imp cookieStore props [])) =
        [GetMessagesCall (localeParam (params props))]) \<and>
   (\<not> (localeParam (params props) \<in> set (locales (routing imp)) \<and>
        \<not> isAuthenticated (cookieStore (AUTH_COOKIE_NAME imp)) \<and>
        getMessages imp (localeParam (params props)) = Inl Nullish) \<longrightarrow>
      terminalOf (fst (LocaleLayout imp cookieStore props w)) =
        Some (specDecision (localeParam (params props) \<in> set (locales (routing imp)))
           (isAuthenticated (cookieStore (AUTH_COOKIE_NAME imp)))
           (loaded (getMessages imp (localeParam (params props)))))) \<and>
   (localeParam (params props) \<in> set (locales (routing imp)) \<and>
    \<not> isAuthenticated (cookieStore (AUTH_COOKIE_NAME imp)) \<and>
    getMessages imp (localeParam (params props)) = Inl x \<and> x \<noteq> Nullish \<longrightarrow>
      fst (LocaleLayout imp cookieStore props w) = Inl NotFoundError)"
  by (cases rule: LocaleLayout_cases [where props = props and imp = imp and cookieStore = cookieStore])
    (auto simp add: LocaleLayout_paths specDecision_def loaderCalls_def shell_def)

theorem LocaleLayout_no_retry_example:
  "''es'' \<in> set (locales (routing failingImports)) \<and>
   \<not> isAuthenticated (noCookies (AUTH_COOKIE_NAME failingImports)) \<and>
   getMessages failingImports ''es'' = Inl (ErrorValue bundleError) \<and>
   ErrorValue bundleError \<noteq> Nullish \<and>
   terminalOf (fst (LocaleLayout failingImports noCookies (pageProps ''es'') [])) = Some NotFound \<and>
   fst (LocaleLayout failingImports noCookies (pageProps ''es'') []) = Inl NotFoundError \<and>
   loaderCalls (snd (LocaleLayout failingImports noCookies (pageProps ''es'') [])) =
     [GetMessagesCall ''es'']"
  using LocaleLayout_no_retry
      [of failingImports noCookies "pageProps ''es''" "[]" "ErrorValue bundleError"]
  by (simp add: sample_defs specDecision_def)

section \<open>Properties of the test harness\<close>

lemma getMessagesForLocale_own:
  "getMessagesForLocale en es ''en'' = MessagesObject en"
  "getMessagesForLocale en es ''es'' = MessagesObject es"
  by (simp_all add: getMessagesForLocale_def getProperty_def messageMap_def jsOr_def)

text \<open>
  A locale that is neither a key of the literal nor a property name of
  \<open>Object.prototype\<close> gets the English bundle.
\<close>

lemma getMessagesForLocale_fallback:
  "loc \<notin> {''en'', ''es''} \<Longrightarrow> loc \<notin> set objectPrototypeKeys \<Longrightarrow>
     getMessagesForLocale en es loc = MessagesObject en"
  by (simp add: getMessagesForLocale_def getProperty_def messageMap_def jsOr_def)

lemma AllTheProviders_fallback:
  "loc \<notin> {''en'', ''es''} \<Longrightarrow> loc \<notin> set objectPrototypeKeys \<Longrightarrow>
     AllTheProviders en es kids tr il (Some loc) None =
       Element ''NextIntlClientProvider'' [LocaleProp loc, MessagesProp (MessagesObject en)]
         [Element ''ThemeProvider'' [] [Children kids]]"
  by (simp add: AllTheProviders_def getProperty_def messageMap_def jsOr_def)

lemma getMessagesForLocale_fallback_example:
  "getMessagesForLocale en es ''fr'' = MessagesObject en"
  by (simp add: getMessagesForLocale_def getProperty_def messageMap_def jsOr_def
      objectPrototypeKeys_def)

text \<open>
  C9 at the locale \<open>constructor\<close>, which is neither \<open>en\<close> nor \<open>es\<close>: the lookup finds
  the property that the literal inherits, which is truthy, so neither function falls
  back to the English bundle.
\<close>

theorem getMessagesForLocale_inherited_key:
  "''constructor'' \<notin> {''en'', ''es''} \<and>
   getMessagesForLocale en es ''constructor'' = Inherited ''constructor'' \<and>
   getMessagesForLocale en es ''constructor'' \<noteq> MessagesObject en \<and>
   AllTheProviders en es kids None None (Some ''constructor'') None =
     Element ''NextIntlClientProvider''
       [LocaleProp ''constructor'', MessagesProp (Inherited ''constructor'')]
       [Element ''ThemeProvider'' [] [Children kids]]"
  by (simp add: getMessagesForLocale_def AllTheProviders_def getProperty_def messageMap_def
      jsOr_def objectPrototypeKeys_def Let_def)

section \<open>Properties of the news table\<close>

lemma afterLoads_eq: "afterLoads n = 3 + 3 * n"
  by (induction n) (simp_all add: initialVisibleCount_def handleLoadMore_def)

lemma LatestNewsTable_rows_length:
  "length (tableRows (LatestNewsTable fmt loc items visibleCount)) =
     min visibleCount (length items)"
  by (simp add: LatestNewsTable_def slice0_def Let_def min.commute)

lemma LatestNewsTable_headlines:
  "map headline (tableRows (LatestNewsTable fmt loc items visibleCount)) =
     map title (take visibleCount items)"
proof -
  have "map (headline \<circ> renderRow fmt loc visibleCount items) (zip [0..<length xs] xs) =
    map title xs" for xs :: "NewsCardProps list"
  proof -
    have "map (headline \<circ> renderRow fmt loc visibleCount items) (zip [0..<length xs] xs) =
      map (title \<circ> snd) (zip [0..<length xs] xs)"
      by (rule map_cong) (auto simp: renderRow_def)
    also have "\<dots> = map title (map snd (zip [0..<length xs] xs))"
      by (simp only: map_map)
    also have "map snd (zip [0..<length xs] xs) = xs"
      by (rule map_snd_zip) simp
    finally show ?thesis .
  qed
  then show ?thesis by (simp add: LatestNewsTable_def slice0_def Let_def del: length_take)
qed

text \<open>
  C10: the table renders the first \<open>min visibleCount (length items)\<close> items and no more;
  the count starts at 3 and each activation of load-more adds 3 to it; and the load-more
  control is shown exactly while the count is below the number of items.
\<close>

theorem LatestNewsTable_visible:
  "length (tableRows (LatestNewsTable fmt loc items visibleCount)) \<le>
     min visibleCount (length items) \<and>
   map headline (tableRows (LatestNewsTable fmt loc items visibleCount)) =
     map title (take (min visibleCount (length items)) items) \<and>
   initialVisibleCount = 3 \<and>
   handleLoadMore visibleCount = visibleCount + 3 \<and>
   afterLoads n = 3 + 3 * n \<and>
   loadMoreShown (LatestNewsTable fmt loc items visibleCount) = (visibleCount < length items) \<and>
   (clickLoadMore items visibleCount = Some (visibleCount + 3)) = (visibleCount < length items)"
proof -
  have "take (min visibleCount (length items)) items = take visibleCount items"
    by (simp add: min_def)
  moreover
  have "loadMoreShown (LatestNewsTable fmt loc items visibleCount) = (visibleCount < length items)"
    by (auto simp: LatestNewsTable_def isAllShown_def Let_def)
  moreover have "(clickLoadMore items visibleCount = Some (visibleCount + 3)) =
    (visibleCount < length items)"
    by (auto simp: clickLoadMore_def isAllShown_def handleLoadMore_def)
  ultimately show ?thesis
    by (simp add: LatestNewsTable_rows_length LatestNewsTable_headlines afterLoads_eq
        initialVisibleCount_def handleLoadMore_def)
qed

theorem LatestNewsTable_visible_witness:
  "length (tableRows (LatestNewsTable isoDate ''en'' sampleItems 3)) = 3 \<and>
   map headline (tableRows (LatestNewsTable isoDate ''en'' sampleItems 3)) = [''a'', ''b'', ''c''] \<and>
   loadMoreShown (LatestNewsTable isoDate ''en'' sampleItems 3) \<and>
   clickLoadMore sampleItems 3 = Some 6 \<and>
   \<not> loadMoreShown (LatestNewsTable isoDate ''en'' sampleItems 6) \<and>
   length (tableRows (LatestNewsTable isoDate ''en'' sampleItems 6)) = 5 \<and>
   afterLoads 2 = 9"
  using LatestNewsTable_visible [of isoDate "''en''" sampleItems 3 2, unfolded initialVisibleCount_def]
    LatestNewsTable_visible [of isoDate "''en''" sampleItems 6 2, unfolded initialVisibleCount_def]
  by (simp add: sampleItems_def sampleItem_def handleLoadMore_def LatestNewsTable_rows_length)

end
